theory Spec2Isabelle
  imports Main "HOL-Library.Word" "HOL-Library.Char_ord" "HOL-Library.List_Lexorder"
begin

unbundle bit_operations_syntax

section \<open>Bytes and strings\<close>

text \<open>
  A Go \<^verbatim>\<open>string\<close> and a Go \<^verbatim>\<open>[]byte\<close> are both sequences of bytes; both are
  modelled as \<^typ>\<open>string\<close> (a list of 8-bit characters). \<open>uint\<close> reads a byte as a
  number, \<open>byte\<close> is Go's conversion \<^verbatim>\<open>byte(x)\<close>, which keeps the low eight bits.
  Strings are compared bytewise, as Go compares them.
\<close>

definition uint :: "char \<Rightarrow> nat" where
  "uint c = of_char c"

definition byte :: "nat \<Rightarrow> char" where
  "byte n = char_of n"

section \<open>strings.Split with a one-byte separator\<close>

text \<open>
  \<^verbatim>\<open>strings.Split(s, ".")\<close> looks for the first separator, keeps what is before it
  and goes on with what is after it; what is left when no separator is found is the
  last part. A string with \<open>n\<close> separators gives \<open>n + 1\<close> parts, and the empty
  string gives one empty part.
\<close>

function Split :: "string \<Rightarrow> char \<Rightarrow> string list" where
  "Split s sep =
     (case dropWhile (\<lambda>c. c \<noteq> sep) s of
        [] \<Rightarrow> [s]
      | _ # rest \<Rightarrow> takeWhile (\<lambda>c. c \<noteq> sep) s # Split rest sep)"
  by pat_completeness auto
termination
proof (relation "measure (\<lambda>(s, sep). length s)")
  show "wf (measure (\<lambda>(s, sep). length s))" by simp
next
  fix s :: string and sep x21 x22
  assume "dropWhile (\<lambda>c. c \<noteq> sep) s = x21 # x22"
  then have "Suc (length x22) = length (dropWhile (\<lambda>c. c \<noteq> sep) s)" by simp
  also have "\<dots> \<le> length s" by (rule length_dropWhile_le)
  finally show "((x22, sep), (s, sep)) \<in> measure (\<lambda>(s, sep). length s)" by simp
qed

declare Split.simps [simp del]

section \<open>encoding/base64: RawURLEncoding\<close>

text \<open>
  The URL-safe alphabet, no padding character, not strict (trailing bits of the last
  character are not checked).
\<close>

definition encodeURL :: string where
  "encodeURL = ''ABCDEFGHIJKLMNOPQRSTUVWXYZabcdefghijklmnopqrstuvwxyz0123456789-_''"

definition enc :: "nat \<Rightarrow> char" where
  "enc i = encodeURL ! i"

text \<open>
  \<^verbatim>\<open>Encode\<close>: three bytes make \<^verbatim>\<open>val = b0<<16 | b1<<8 | b2\<close> and four characters
  \<^verbatim>\<open>encode[val>>18&0x3F]\<close>, \<^verbatim>\<open>encode[val>>12&0x3F]\<close>, \<^verbatim>\<open>encode[val>>6&0x3F]\<close>,
  \<^verbatim>\<open>encode[val&0x3F]\<close>; a remainder of one or two bytes makes two or three characters
  and, without padding, nothing more. The shifted operands have no bit in common, so
  the bitwise or is written as a sum, the shifts as divisions and the mask as \<open>mod 64\<close>.
\<close>

fun EncodeToString :: "string \<Rightarrow> string" where
  "EncodeToString (b0 # b1 # b2 # src) =
     (let val = uint b0 * 65536 + uint b1 * 256 + uint b2
      in [enc (val div 262144 mod 64), enc (val div 4096 mod 64),
          enc (val div 64 mod 64), enc (val mod 64)] @ EncodeToString src)"
| "EncodeToString [b0, b1] =
     (let val = uint b0 * 65536 + uint b1 * 256
      in [enc (val div 262144 mod 64), enc (val div 4096 mod 64), enc (val div 64 mod 64)])"
| "EncodeToString [b0] =
     (let val = uint b0 * 65536
      in [enc (val div 262144 mod 64), enc (val div 4096 mod 64)])"
| "EncodeToString [] = []"

declare EncodeToString.simps [simp del]

datatype CorruptInputError = CorruptInputError nat

text \<open>
  \<^verbatim>\<open>decodeMap\<close> is 0xff everywhere except at the 64 characters of the alphabet,
  where it holds the character's index: \<open>decodeMap c\<close> is the index of \<open>c\<close> in the
  alphabet, if it has one.
\<close>

fun indexFrom :: "nat \<Rightarrow> string \<Rightarrow> char \<Rightarrow> nat option" where
  "indexFrom i [] c = None"
| "indexFrom i (x # xs) c = (if x = c then Some i else indexFrom (i + 1) xs c)"

definition decodeMap :: "char \<Rightarrow> nat option" where
  "decodeMap c = indexFrom 0 encodeURL c"

text \<open>
  The end of \<^verbatim>\<open>decodeQuantum\<close>: \<open>dlen\<close> six-bit values (2, 3 or 4 of them, the
  missing ones zero) make \<^verbatim>\<open>val = d0<<18 | d1<<12 | d2<<6 | d3\<close> and the
  \<open>dlen - 1\<close> bytes \<^verbatim>\<open>byte(val>>16)\<close>, \<^verbatim>\<open>byte(val>>8)\<close>, \<^verbatim>\<open>byte(val)\<close>.
\<close>

definition quantum :: "nat list \<Rightarrow> string" where
  "quantum dbuf =
     (let d = dbuf @ replicate (4 - length dbuf) 0;
          val = d ! 0 * 262144 + d ! 1 * 4096 + d ! 2 * 64 + d ! 3
      in take (length dbuf - 1) [byte (val div 65536), byte (val div 256), byte val])"

text \<open>
  \<^verbatim>\<open>Decode\<close> as a run of \<^verbatim>\<open>decodeQuantum\<close> calls (the 8- and 4-character fast paths
  compute the same). \<open>si\<close> is the index of the next source byte, \<open>dbuf\<close> the six-bit
  values of the current quantum. A character outside the alphabet is skipped when it
  is a line feed or a carriage return and is \<^verbatim>\<open>CorruptInputError(si)\<close> otherwise (there
  is no padding character); the input may end after 0, 2 or 3 characters of a quantum,
  and ending after one is \<^verbatim>\<open>CorruptInputError(len(src) - 1)\<close>.
\<close>

fun decode :: "nat \<Rightarrow> nat list \<Rightarrow> string \<Rightarrow> CorruptInputError + string" where
  "decode si dbuf [] =
     (if length dbuf = 0 then Inr []
      else if length dbuf = 1 then Inl (CorruptInputError (si - 1))
      else Inr (quantum dbuf))"
| "decode si dbuf (c # src) =
     (case decodeMap c of
        Some out \<Rightarrow>
          if length dbuf = 3
          then (case decode (si + 1) [] src of
                  Inl e \<Rightarrow> Inl e
                | Inr bs \<Rightarrow> Inr (quantum (dbuf @ [out]) @ bs))
          else decode (si + 1) (dbuf @ [out]) src
      | None \<Rightarrow>
          if c = CHR 0x0A \<or> c = CHR 0x0D then decode (si + 1) dbuf src
          else Inl (CorruptInputError si))"

definition DecodeString :: "string \<Rightarrow> CorruptInputError + string" where
  "DecodeString s = decode 0 [] s"

section \<open>github.com/google/uuid\<close>

text \<open>A UUID is an array of 16 bytes; \<^verbatim>\<open>FromBytes\<close> accepts exactly 16 bytes.\<close>

datatype uuidError = InvalidUUIDLength nat

definition FromBytes :: "string \<Rightarrow> uuidError + string" where
  "FromBytes b = (if length b \<noteq> 16 then Inl (InvalidUUIDLength (length b)) else Inr b)"

definition hextable :: string where
  "hextable = ''0123456789abcdef''"

definition hex_Encode :: "string \<Rightarrow> string" where
  "hex_Encode src = concat (map (\<lambda>v. [hextable ! (uint v div 16), hextable ! (uint v mod 16)]) src)"

text \<open>
  \<^verbatim>\<open>UUID.String\<close>: the form \<^verbatim>\<open>xxxxxxxx-xxxx-xxxx-xxxx-xxxxxxxxxxxx\<close> in lower-case
  hexadecimal digits.
\<close>

definition uuid_String :: "string \<Rightarrow> string" where
  "uuid_String uuid =
     hex_Encode (take 4 uuid) @ ''-'' @ hex_Encode (take 2 (drop 4 uuid)) @ ''-'' @
     hex_Encode (take 2 (drop 6 uuid)) @ ''-'' @ hex_Encode (take 2 (drop 8 uuid)) @ ''-'' @
     hex_Encode (drop 10 uuid)"

section \<open>crypto/sha256 and crypto/hmac\<close>

type_synonym u32 = "32 word"

text \<open>
  The 64 round constants (the first 32 bits of the fractional parts of the cube roots
  of the first 64 primes, written in decimal; the first is 0x428a2f98) and the initial
  hash value.
\<close>

definition K256 :: "u32 list" where
  "K256 =
    [1116352408, 1899447441, 3049323471, 3921009573, 961987163, 1508970993,
     2453635748, 2870763221, 3624381080, 310598401, 607225278, 1426881987,
     1925078388, 2162078206, 2614888103, 3248222580, 3835390401, 4022224774,
     264347078, 604807628, 770255983, 1249150122, 1555081692, 1996064986,
     2554220882, 2821834349, 2952996808, 3210313671, 3336571891, 3584528711,
     113926993, 338241895, 666307205, 773529912, 1294757372, 1396182291,
     1695183700, 1986661051, 2177026350, 2456956037, 2730485921, 2820302411,
     3259730800, 3345764771, 3516065817, 3600352804, 4094571909, 275423344,
     430227734, 506948616, 659060556, 883997877, 958139571, 1322822218,
     1537002063, 1747873779, 1955562222, 2024104815, 2227730452, 2361852424,
     2428436474, 2756734187, 3204031479, 3329325298]"

definition H256 :: "u32 list" where
  "H256 = [0x6a09e667, 0xbb67ae85, 0x3c6ef372, 0xa54ff53a,
           0x510e527f, 0x9b05688c, 0x1f83d9ab, 0x5be0cd19]"

definition rotr :: "nat \<Rightarrow> u32 \<Rightarrow> u32" where
  "rotr n x = drop_bit n x OR push_bit (32 - n) x"

definition be32 :: "string \<Rightarrow> u32" where
  "be32 bs = of_nat (uint (bs ! 0) * 16777216 + uint (bs ! 1) * 65536 + uint (bs ! 2) * 256 + uint (bs ! 3))"

definition put32 :: "u32 \<Rightarrow> string" where
  "put32 w = [byte (unat w div 16777216), byte (unat w div 65536), byte (unat w div 256), byte (unat w)]"

definition put64 :: "nat \<Rightarrow> string" where
  "put64 n = [byte (n div 2 ^ 56), byte (n div 2 ^ 48), byte (n div 2 ^ 40), byte (n div 2 ^ 32),
              byte (n div 2 ^ 24), byte (n div 2 ^ 16), byte (n div 2 ^ 8), byte n]"

text \<open>
  Padding: the byte 0x80, zero bytes up to 56 modulo 64, and the length of the message
  in bits as eight big-endian bytes.
\<close>

definition pad :: "string \<Rightarrow> string" where
  "pad m = m @ [byte 0x80] @ replicate ((119 - length m mod 64) mod 64) (byte 0) @ put64 (8 * length m)"

fun schedule :: "nat \<Rightarrow> u32 list \<Rightarrow> u32 list" where
  "schedule 0 w = w"
| "schedule (Suc k) w =
     (let t = length w;
          v1 = w ! (t - 2);
          v2 = w ! (t - 15);
          t1 = rotr 17 v1 XOR rotr 19 v1 XOR drop_bit 10 v1;
          t2 = rotr 7 v2 XOR rotr 18 v2 XOR drop_bit 3 v2
      in schedule k (w @ [t1 + w ! (t - 7) + t2 + w ! (t - 16)]))"

definition round :: "u32 list \<Rightarrow> u32 \<times> u32 \<Rightarrow> u32 list" where
  "round st kw =
     (let a = st ! 0; b = st ! 1; c = st ! 2; d = st ! 3;
          e = st ! 4; f = st ! 5; g = st ! 6; h = st ! 7;
          t1 = h + (rotr 6 e XOR rotr 11 e XOR rotr 25 e) + ((e AND f) XOR (NOT e AND g)) + fst kw + snd kw;
          t2 = (rotr 2 a XOR rotr 13 a XOR rotr 22 a) + ((a AND b) XOR (a AND c) XOR (b AND c))
      in [t1 + t2, a, b, c, d + t1, e, f, g])"

definition block :: "u32 list \<Rightarrow> string \<Rightarrow> u32 list" where
  "block st p =
     (let w = schedule 48 (map (\<lambda>i. be32 (take 4 (drop (4 * i) p))) [0..<16])
      in map2 (+) st (foldl round st (zip K256 w)))"

fun blocks :: "nat \<Rightarrow> u32 list \<Rightarrow> string \<Rightarrow> u32 list" where
  "blocks 0 st p = st"
| "blocks (Suc n) st p = blocks n (block st (take 64 p)) (drop 64 p)"

definition sha256 :: "string \<Rightarrow> string" where
  "sha256 m = concat (map put32 (blocks (length (pad m) div 64) H256 (pad m)))"

text \<open>
  \<^verbatim>\<open>hmac.New(sha256.New, key)\<close>, \<^verbatim>\<open>Write(msg)\<close>, \<^verbatim>\<open>Sum(nil)\<close>: a key longer than the
  block size of 64 bytes is hashed first, then padded with zero bytes to 64; the digest
  is \<open>H (opad || H (ipad || msg))\<close>.
\<close>

definition hmac_sha256 :: "string \<Rightarrow> string \<Rightarrow> string" where
  "hmac_sha256 key msg =
     (let k0 = (if length key > 64 then sha256 key else key);
          k = k0 @ replicate (64 - length k0) (byte 0);
          ipad = map (\<lambda>c. byte (uint c XOR 0x36)) k;
          opad = map (\<lambda>c. byte (uint c XOR 0x5c)) k
      in sha256 (opad @ sha256 (ipad @ msg)))"

section \<open>strconv and unicode/utf8\<close>

text \<open>\<^verbatim>\<open>strconv.FormatInt(i, 10)\<close>: the decimal digits, after a minus sign when negative.\<close>

function digits :: "nat \<Rightarrow> string" where
  "digits n = (if n < 10 then [byte (48 + n)] else digits (n div 10) @ [byte (48 + n mod 10)])"
  by pat_completeness auto
termination
  by (relation "measure (\<lambda>n. n)") auto

declare digits.simps [simp del]

definition FormatInt :: "int \<Rightarrow> string" where
  "FormatInt i = (if i < 0 then CHR ''-'' # digits (nat (- i)) else digits (nat i))"

definition RuneError :: nat where
  "RuneError = 0xFFFD"

text \<open>
  The table \<^verbatim>\<open>first\<close> of package utf8 at a leading byte of 0x80 or more: the length of
  the encoding and the range accepted for the second byte, or nothing for a byte that
  starts no encoding.
\<close>

definition utf8_first :: "nat \<Rightarrow> (nat \<times> nat \<times> nat) option" where
  "utf8_first b =
     (if 0xC2 \<le> b \<and> b \<le> 0xDF then Some (2, 0x80, 0xBF)
      else if b = 0xE0 then Some (3, 0xA0, 0xBF)
      else if 0xE1 \<le> b \<and> b \<le> 0xEC then Some (3, 0x80, 0xBF)
      else if b = 0xED then Some (3, 0x80, 0x9F)
      else if 0xEE \<le> b \<and> b \<le> 0xEF then Some (3, 0x80, 0xBF)
      else if b = 0xF0 then Some (4, 0x90, 0xBF)
      else if 0xF1 \<le> b \<and> b \<le> 0xF3 then Some (4, 0x80, 0xBF)
      else if b = 0xF4 then Some (4, 0x80, 0x8F)
      else None)"

text \<open>
  \<^verbatim>\<open>utf8.DecodeRuneInString\<close>: the first code point of the string and the number of
  bytes it takes; \<open>(RuneError, 1)\<close> where the bytes are no valid encoding.
\<close>

definition DecodeRuneInString :: "string \<Rightarrow> nat \<times> nat" where
  "DecodeRuneInString s =
     (case s of
        [] \<Rightarrow> (RuneError, 0)
      | c0 # _ \<Rightarrow>
          let s0 = uint c0 in
          if s0 < 0x80 then (s0, 1)
          else
            (case utf8_first s0 of
               None \<Rightarrow> (RuneError, 1)
             | Some (sz, lo, hi) \<Rightarrow>
                 if length s < sz then (RuneError, 1)
                 else
                   let s1 = uint (s ! 1) in
                   if s1 < lo \<or> hi < s1 then (RuneError, 1)
                   else if sz \<le> 2 then (s0 mod 32 * 64 + s1 mod 64, 2)
                   else
                     let s2 = uint (s ! 2) in
                     if s2 < 0x80 \<or> 0xBF < s2 then (RuneError, 1)
                     else if sz \<le> 3 then (s0 mod 16 * 4096 + s1 mod 64 * 64 + s2 mod 64, 3)
                     else
                       let s3 = uint (s ! 3) in
                       if s3 < 0x80 \<or> 0xBF < s3 then (RuneError, 1)
                       else (s0 mod 8 * 262144 + s1 mod 64 * 4096 + s2 mod 64 * 64 + s3 mod 64, 4)))"

section \<open>encoding/json\<close>

text \<open>
  What \<^verbatim>\<open>json.Marshal\<close> sees of a Go value: nil (a nil pointer, slice, map or
  interface), a boolean, an integer, a string, a slice, a map with string keys (its
  entries in some order, the keys distinct), a struct (its exported fields under their
  JSON names, in the order of declaration), and \<open>VChan\<close> for a value of a type that has
  no JSON encoding (a channel, a function, a complex number), at which Marshal returns
  an \<^verbatim>\<open>UnsupportedTypeError\<close>. Floating-point numbers are left out.
\<close>

datatype govalue =
    VNil
  | VBool bool
  | VInt int
  | VString string
  | VSlice "govalue list"
  | VMap "(string \<times> govalue) list"
  | VStruct "(string \<times> govalue) list"
  | VChan

datatype jsonError = UnsupportedTypeError

text \<open>
  The string encoder with HTML escaping, as Marshal uses it. A byte below 0x80 is
  copied when it is in \<^verbatim>\<open>htmlSafeSet\<close>: every byte from 0x20 on except the double
  quote, the backslash and the characters \<^verbatim>\<open><\<close>, \<^verbatim>\<open>>\<close> and \<^verbatim>\<open>&\<close>; the others are
  escaped (the short forms for backspace and form feed are those of Go 1.22 and
  later; older releases write these two bytes as six-character escapes with four
  hexadecimal digits). From 0x80 on, bytes that are no valid UTF-8 become the
  escape of the replacement character U+FFFD, the line and paragraph separators
  U+2028 and U+2029 are escaped, and every other code point is copied.
\<close>

definition htmlSafe :: "nat \<Rightarrow> bool" where
  "htmlSafe b \<longleftrightarrow>
     0x20 \<le> b \<and> b < 0x80 \<and> b \<noteq> 0x22 \<and> b \<noteq> 0x26 \<and> b \<noteq> 0x3C \<and> b \<noteq> 0x3E \<and> b \<noteq> 0x5C"

definition escape :: "char \<Rightarrow> string" where
  "escape c =
     (let b = uint c in
      if b = 0x5C \<or> b = 0x22 then [CHR 0x5C, c]
      else if b = 0x08 then [CHR 0x5C, CHR ''b'']
      else if b = 0x0C then [CHR 0x5C, CHR ''f'']
      else if b = 0x0A then [CHR 0x5C, CHR ''n'']
      else if b = 0x0D then [CHR 0x5C, CHR ''r'']
      else if b = 0x09 then [CHR 0x5C, CHR ''t'']
      else CHR 0x5C # ''u00'' @ [hextable ! (b div 16), hextable ! (b mod 16)])"

fun appendString :: "string \<Rightarrow> string" where
  "appendString [] = []"
| "appendString (c # s) =
     (if uint c < 0x80 then (if htmlSafe (uint c) then [c] else escape c) @ appendString s
      else
        (case DecodeRuneInString (c # s) of
           (r, sz) \<Rightarrow>
             if r = RuneError \<and> sz = 1 then CHR 0x5C # ''ufffd'' @ appendString s
             else if r = 0x2028 \<or> r = 0x2029
             then CHR 0x5C # ''u202'' @ [hextable ! (r mod 16)] @ appendString (drop (sz - 1) s)
             else take sz (c # s) @ appendString (drop (sz - 1) s)))"

definition quote :: "string \<Rightarrow> string" where
  "quote s = CHR 0x22 # appendString s @ [CHR 0x22]"

fun sequence :: "('e + 'a) list \<Rightarrow> 'e + 'a list" where
  "sequence [] = Inr []"
| "sequence (Inl e # rs) = Inl e"
| "sequence (Inr x # rs) = (case sequence rs of Inl e \<Rightarrow> Inl e | Inr xs \<Rightarrow> Inr (x # xs))"

fun join :: "string list \<Rightarrow> string" where
  "join [] = []"
| "join [x] = x"
| "join (x # y # zs) = x @ CHR '','' # join (y # zs)"

definition field :: "string \<times> (jsonError + string) \<Rightarrow> jsonError + string" where
  "field kr = (case snd kr of Inl e \<Rightarrow> Inl e | Inr j \<Rightarrow> Inr (quote (fst kr) @ CHR '':'' # j))"

definition object :: "(string \<times> (jsonError + string)) list \<Rightarrow> jsonError + string" where
  "object krs =
     (case sequence (map field krs) of
        Inl e \<Rightarrow> Inl e
      | Inr fs \<Rightarrow> Inr (CHR ''{'' # join fs @ ''}''))"

text \<open>
  \<^verbatim>\<open>json.Marshal\<close>. The entries of a map are written in the order of their keys
  (compared bytewise), the fields of a struct in the order of declaration; the first
  value that cannot be encoded ends the encoding with its error.
\<close>

fun Marshal :: "govalue \<Rightarrow> jsonError + string" where
  "Marshal VNil = Inr ''null''"
| "Marshal (VBool b) = Inr (if b then ''true'' else ''false'')"
| "Marshal (VInt i) = Inr (FormatInt i)"
| "Marshal (VString s) = Inr (quote s)"
| "Marshal (VSlice vs) =
     (case sequence (map Marshal vs) of
        Inl e \<Rightarrow> Inl e
      | Inr js \<Rightarrow> Inr (CHR ''['' # join js @ '']''))"
| "Marshal (VMap kvs) = object (sort_key fst (map (\<lambda>(k, v). (k, Marshal v)) kvs))"
| "Marshal (VStruct fs) = object (map (\<lambda>(k, v). (k, Marshal v)) fs)"
| "Marshal VChan = Inl UnsupportedTypeError"

section \<open>The client and its types\<close>

text \<open>
  \<^verbatim>\<open>Client\<close> (client.go) without its HTTP client, which token generation does not
  use; \<^verbatim>\<open>User\<close> and \<^verbatim>\<open>JWTHeader\<close> as declared. \<open>AdminScopes\<close> is a Go slice:
  \<open>None\<close> is the nil slice, \<open>Some []\<close> an empty slice that is not nil.
\<close>

record Client =
  apiKey :: string
  baseURL :: string

record User =
  ID :: string
  Email :: string
  AdminScopes :: "string list option"

record JWTHeader =
  IAT :: "64 word"
  Alg :: string
  Typ :: string
  Kid :: string

definition defaultBaseURL :: string where
  "defaultBaseURL = ''https://api.vortexsoftware.com''"

text \<open>\<open>NewClient\<close>; \<open>env\<close> is the value of the environment variable VORTEX_API_BASE_URL.\<close>

definition NewClient :: "string \<Rightarrow> string \<Rightarrow> Client" where
  "NewClient env key = \<lparr>apiKey = key, baseURL = (if env = [] then defaultBaseURL else env)\<rparr>"

text \<open>The struct \<^verbatim>\<open>JWTHeader\<close> as Marshal sees it, under its JSON tags.\<close>

definition headerValue :: "JWTHeader \<Rightarrow> govalue" where
  "headerValue h =
     VStruct [(''iat'', VInt (sint (IAT h))), (''alg'', VString (Alg h)),
              (''typ'', VString (Typ h)), (''kid'', VString (Kid h))]"

text \<open>
  The errors of \<^verbatim>\<open>GenerateJWT\<close>, one for each \<^verbatim>\<open>fmt.Errorf\<close> of the function:
  "invalid API key format", "invalid API key prefix", "failed to decode API key ID",
  "failed to parse UUID from API key", "failed to marshal JWT header" and "failed to
  marshal JWT payload", the last four around the error they wrap.
\<close>

datatype error =
    InvalidAPIKeyFormat
  | InvalidAPIKeyPrefix
  | DecodeAPIKeyID CorruptInputError
  | ParseUUID uuidError
  | MarshalHeader jsonError
  | MarshalPayload jsonError

text \<open>
  A call either returns its pair of results, the token and the error (\<open>None\<close> for
  Go's nil error), or panics on a nil pointer.
\<close>

datatype 'a outcome = Panic | Return 'a

section \<open>GenerateJWT\<close>

text \<open>
  A Go map with string keys is a list of entries with distinct keys;
  \<^verbatim>\<open>m[k] = v\<close> replaces the entry of \<open>k\<close> or adds one.
\<close>

fun assign :: "(string \<times> govalue) list \<Rightarrow> string \<Rightarrow> govalue \<Rightarrow> (string \<times> govalue) list" where
  "assign [] k v = [(k, v)]"
| "assign ((k', v') # m) k v = (if k' = k then (k, v) # m else (k', v') # assign m k v)"

text \<open>
  Lines 86 to 109: the API key is split at the dots into prefix, encoded identifier
  and key; the identifier is decoded and made a UUID. The result is the UUID and the
  key.
\<close>

definition parseAPIKey :: "string \<Rightarrow> error + (string \<times> string)" where
  "parseAPIKey k =
     (let parts = Split k CHR ''.'' in
      if length parts \<noteq> 3 then Inl InvalidAPIKeyFormat
      else
        let prefix = parts ! 0; encodedID = parts ! 1; key = parts ! 2 in
        if prefix \<noteq> ''VRTX'' then Inl InvalidAPIKeyPrefix
        else
          (case DecodeString encodedID of
             Inl err \<Rightarrow> Inl (DecodeAPIKeyID err)
           | Inr uuidBytes \<Rightarrow>
               (case FromBytes uuidBytes of
                  Inl err \<Rightarrow> Inl (ParseUUID err)
                | Inr uid \<Rightarrow> Inr (uid, key))))"

text \<open>
  Lines 128 to 144: the payload map. The required fields first, then
  \<^verbatim>\<open>adminScopes\<close> when the slice is not nil, then the entries of \<open>extra\<close> when the
  map is not nil, in the order in which the \<^verbatim>\<open>range\<close> loop meets them (\<open>extra\<close> is
  given as its entries in that order).
\<close>

definition buildPayload ::
  "User \<Rightarrow> 64 word \<Rightarrow> (string \<times> govalue) list option \<Rightarrow> (string \<times> govalue) list" where
  "buildPayload user expires extra =
     (let payload = [(''userId'', VString (ID user)), (''userEmail'', VString (Email user)),
                     (''expires'', VInt (sint expires))];
          payload = (case AdminScopes user of
                       None \<Rightarrow> payload
                     | Some scopes \<Rightarrow> assign payload ''adminScopes'' (VSlice (map VString scopes)));
          payload = (case extra of
                       None \<Rightarrow> payload
                     | Some entries \<Rightarrow> foldl (\<lambda>m (key, val). assign m key val) payload entries)
      in payload)"

text \<open>
  Lines 146 to 167: header and payload are marshalled and encoded, the two segments
  are signed with the signing key, and the token is put together.
\<close>

definition encodeAndSign ::
  "string \<Rightarrow> JWTHeader \<Rightarrow> (string \<times> govalue) list \<Rightarrow> string \<times> error option" where
  "encodeAndSign signingKey header payload =
     (case Marshal (headerValue header) of
        Inl err \<Rightarrow> ([], Some (MarshalHeader err))
      | Inr headerJSON \<Rightarrow>
          (case Marshal (VMap payload) of
             Inl err \<Rightarrow> ([], Some (MarshalPayload err))
           | Inr payloadJSON \<Rightarrow>
               let headerB64 = EncodeToString headerJSON;
                   payloadB64 = EncodeToString payloadJSON;
                   toSign = headerB64 @ ''.'' @ payloadB64;
                   signature = EncodeToString (hmac_sha256 signingKey toSign);
                   jwt = toSign @ ''.'' @ signature
               in (jwt, None)))"

text \<open>
  \<^verbatim>\<open>GenerateJWT\<close>. \<open>uid\<close> is the source's \<^verbatim>\<open>id\<close>; \<open>now\<close> is the value of \<^verbatim>\<open>time.Now().Unix()\<close>, an int64; \<open>user\<close> is
  a pointer (\<open>None\<close> is nil) and is first read when the payload is built, after the API
  key has been parsed; \<open>extra\<close> is a map (\<open>None\<close> is nil). The sum \<^verbatim>\<open>now + 3600\<close> is
  an int64 sum.
\<close>

definition GenerateJWT ::
  "Client \<Rightarrow> 64 word \<Rightarrow> User option \<Rightarrow> (string \<times> govalue) list option
     \<Rightarrow> (string \<times> error option) outcome" where
  "GenerateJWT c now user extra =
     (case parseAPIKey (apiKey c) of
        Inl err \<Rightarrow> Return ([], Some err)
      | Inr (uid, key) \<Rightarrow>
          let signingKey = hmac_sha256 key (uuid_String uid);
              expires = now + 3600;
              header = \<lparr>IAT = now, Alg = ''HS256'', Typ = ''JWT'', Kid = uuid_String uid\<rparr>
          in (case user of
                None \<Rightarrow> Panic
              | Some u \<Rightarrow> Return (encodeAndSign signingKey header (buildPayload u expires extra))))"

section \<open>Evaluation on concrete inputs\<close>

text \<open>
  Equations by which the simplifier runs the model on literals, and the API key of the
  repository's tests with the 16 bytes of its UUID.
\<close>

lemma Split_Nil: "Split [] sep = [[]]"
  by (simp add: Split.simps)

lemma Split_Cons:
  "Split (c # cs) sep =
     (if c = sep then [] # Split cs sep
      else (case Split cs sep of [] \<Rightarrow> [] | p # ps \<Rightarrow> (c # p) # ps))"
  by (cases "dropWhile (\<lambda>c. c \<noteq> sep) cs")
     (auto simp: Split.simps [of "c # cs"] Split.simps [of cs] simp del: dropWhile_eq_Nil_conv)

lemmas eval_simps =
  Split_Nil Split_Cons DecodeString_def decodeMap_def encodeURL_def enc_def quantum_def
  byte_def uint_def char_of_def bit_0 Let_def FromBytes_def parseAPIKey_def








section \<open>Errors and panics\<close>

text \<open>
  C9. Whenever \<open>GenerateJWT\<close> returns an error, at whatever stage, the token it
  returns with it is the empty string.
\<close>

theorem error_token_empty:
  "GenerateJWT c now user extra = Return (tok, Some e) \<Longrightarrow> tok = []"
  by (auto simp: GenerateJWT_def encodeAndSign_def Let_def
           split: sum.splits option.splits prod.splits)

theorem error_token_empty_witness:
  "GenerateJWT \<lparr>apiKey = ''invalid-key'', baseURL = []\<rparr> 0 None None
     = Return ([], Some InvalidAPIKeyFormat)"
proof -
  have p: "parseAPIKey ''invalid-key'' = Inl InvalidAPIKeyFormat"
    by (simp add: eval_simps)
  have "\<exists>tok. GenerateJWT \<lparr>apiKey = ''invalid-key'', baseURL = []\<rparr> 0 None None
          = Return (tok, Some InvalidAPIKeyFormat)"
    by (simp add: GenerateJWT_def p)
  then obtain tok where
    t: "GenerateJWT \<lparr>apiKey = ''invalid-key'', baseURL = []\<rparr> 0 None None
          = Return (tok, Some InvalidAPIKeyFormat)" ..
  from error_token_empty [OF t] t show ?thesis by simp
qed



section \<open>The header as JSON\<close>








section \<open>Segments of a token\<close>





section \<open>The length of a digest\<close>










section \<open>Issued tokens\<close>


















end
